theory Spec2Isabelle
  imports Main
begin

text \<open>
  A shallow embedding of the status composer of \<open>app/assets/v2/js/status.js\<close>: the three
  patterns and the matcher they run on, the handler of \<open>input\<close> on the text box with the
  completion handlers of its three lookups, the handler of keys and focus changes,
  the login test on clicks, \<open>selectGif\<close>, and \<open>submitStatusUpdate\<close> with the handlers of
  its reply.  The page is a record of what these handlers read and write; a request is
  recorded when it is issued, and its completion is a function applied to the page of
  the moment the reply arrives.  The GIF search grid, the poll and video buttons, the
  choice of a suggested user and the emoji picker are not embedded: what they leave
  behind (the selected GIF, the poll and video containers, the text) is part of the page.
\<close>

section \<open>JavaScript values and string primitives used by status.js\<close>

text \<open>
  Strings are lists of characters (\<open>string\<close>); \<open>length\<close> is the JavaScript \<open>.length\<close>
  for text whose code units are below 256.  The variable \<open>embedded_resource\<close> is
  assigned from \<open>$(e.target).data('src')\<close>, which need not be a string (the input
  handler tests \<open>typeof embedded_resource === 'string'\<close>), so it is a \<open>jsval\<close>: either
  a string, or some other value of which the code only ever inspects the truthiness.
\<close>

datatype jsval = JStr string | JOther bool

fun truthy :: "jsval \<Rightarrow> bool" where
  "truthy (JStr s) = (s \<noteq> [])"
| "truthy (JOther b) = b"

text \<open>White space removed by \<open>String.prototype.trim\<close>: TAB, LF, VT, FF, CR, SPACE, NBSP.\<close>

definition is_space :: "char \<Rightarrow> bool" where
  "is_space c = (of_char c \<in> {9, 10, 11, 12, 13, 32, 160 :: nat})"

definition trim :: "string \<Rightarrow> string" where
  "trim s = rev (dropWhile is_space (rev (dropWhile is_space s)))"

text \<open>\<open>s.split(c)\<close> for a one-character separator; the result is never empty.\<close>

fun js_split :: "char \<Rightarrow> string \<Rightarrow> string list" where
  "js_split c [] = [[]]"
| "js_split c (x # xs) =
     (if x = c then [] # js_split c xs
      else (case js_split c xs of
              [] \<Rightarrow> [[x]]
            | w # ws \<Rightarrow> (x # w) # ws))"

definition startsWith :: "string \<Rightarrow> string \<Rightarrow> bool" where
  "startsWith s p = (take (length p) s = p)"

text \<open>\<open>s.slice(1)\<close> and \<open>s.substr(0, n)\<close>.\<close>

definition slice1 :: "string \<Rightarrow> string" where
  "slice1 s = drop 1 s"

definition substr0 :: "nat \<Rightarrow> string \<Rightarrow> string" where
  "substr0 n s = take n s"

section \<open>Regular expressions\<close>

text \<open>
  The three patterns of status.js use literals, character classes, \<open>.\<close>, sequence,
  alternation, the greedy optional group, greedy repetition of a single-character
  matcher (\<open>{m,n}\<close>, \<open>*\<close>, \<open>+\<close>), capture groups, \<open>\b\<close> and a negative look-ahead on one
  character.  \<open>rmatch\<close> is the backtracking matcher of ECMAScript for that fragment, in
  continuation-passing style: alternatives are tried in priority order and the first
  one whose continuation succeeds wins.  The matcher state is the consumed input
  (reversed), the remaining input and the captures made so far.
\<close>

type_synonym charset = "(char \<times> char) list"

definition in_set :: "charset \<Rightarrow> char \<Rightarrow> bool" where
  "in_set cs c = list_ex (\<lambda>(lo, hi). (of_char lo :: nat) \<le> of_char c \<and> (of_char c :: nat) \<le> of_char hi) cs"

datatype atom = Lit char | Cls charset | Dot

fun atom_ok :: "atom \<Rightarrow> char \<Rightarrow> bool" where
  "atom_ok (Lit a) c = (c = a)"
| "atom_ok (Cls cs) c = in_set cs c"
| "atom_ok Dot c = (of_char c \<notin> {10, 13 :: nat})"

datatype re =
    Atom atom
  | Seq re re
  | Alt re re
  | Opt re
  | Rep atom nat "nat option"
  | Grp nat re
  | NotAhead atom
  | WordB

type_synonym caps = "(nat \<times> string) list"

text \<open>\<open>\w\<close> is \<open>[A-Za-z0-9_]\<close>.\<close>

definition word_cs :: charset where
  "word_cs = [(CHR ''A'', CHR ''Z''), (CHR ''a'', CHR ''z''), (CHR ''0'', CHR ''9''), (CHR ''_'', CHR ''_'')]"

definition is_word :: "string \<Rightarrow> bool" where
  "is_word s = (case s of [] \<Rightarrow> False | c # _ \<Rightarrow> in_set word_cs c)"

text \<open>Greedy repetition: take one more character while allowed, give one back on failure.\<close>

fun rep :: "atom \<Rightarrow> nat \<Rightarrow> nat option \<Rightarrow> string \<Rightarrow> string \<Rightarrow> caps
            \<Rightarrow> (string \<Rightarrow> string \<Rightarrow> caps \<Rightarrow> 'r option) \<Rightarrow> 'r option" where
  "rep a lo hi pre [] cp k = (if lo = 0 then k pre [] cp else None)"
| "rep a lo hi pre (x # xs) cp k =
     (if atom_ok a x \<and> hi \<noteq> Some 0 then
        (case rep a (lo - 1) (map_option (\<lambda>h. h - 1) hi) (x # pre) xs cp k of
           Some r \<Rightarrow> Some r
         | None \<Rightarrow> if lo = 0 then k pre (x # xs) cp else None)
      else if lo = 0 then k pre (x # xs) cp else None)"

text \<open>The text consumed between two matcher states.\<close>

definition consumed :: "string \<Rightarrow> string \<Rightarrow> string" where
  "consumed pre pre' = rev (take (length pre' - length pre) pre')"

fun rmatch :: "re \<Rightarrow> string \<Rightarrow> string \<Rightarrow> caps
               \<Rightarrow> (string \<Rightarrow> string \<Rightarrow> caps \<Rightarrow> 'r option) \<Rightarrow> 'r option" where
  "rmatch (Atom a) pre s cp k =
     (case s of [] \<Rightarrow> None | x # xs \<Rightarrow> if atom_ok a x then k (x # pre) xs cp else None)"
| "rmatch (Seq r1 r2) pre s cp k =
     rmatch r1 pre s cp (\<lambda>pre' s' cp'. rmatch r2 pre' s' cp' k)"
| "rmatch (Alt r1 r2) pre s cp k =
     (case rmatch r1 pre s cp k of Some r \<Rightarrow> Some r | None \<Rightarrow> rmatch r2 pre s cp k)"
| "rmatch (Opt r) pre s cp k =
     (case rmatch r pre s cp k of Some r \<Rightarrow> Some r | None \<Rightarrow> k pre s cp)"
| "rmatch (Rep a lo hi) pre s cp k = rep a lo hi pre s cp k"
| "rmatch (Grp n r) pre s cp k =
     rmatch r pre s cp (\<lambda>pre' s' cp'. k pre' s' ((n, consumed pre pre') # cp'))"
| "rmatch (NotAhead a) pre s cp k =
     (case s of [] \<Rightarrow> k pre s cp | x # _ \<Rightarrow> if atom_ok a x then None else k pre s cp)"
| "rmatch WordB pre s cp k =
     (if is_word pre \<noteq> is_word s then k pre s cp else None)"

fun ngroups :: "re \<Rightarrow> nat" where
  "ngroups (Seq r1 r2) = ngroups r1 + ngroups r2"
| "ngroups (Alt r1 r2) = ngroups r1 + ngroups r2"
| "ngroups (Opt r) = ngroups r"
| "ngroups (Grp n r) = Suc (ngroups r)"
| "ngroups _ = 0"

text \<open>
  The array returned by \<open>str.match(re)\<close> for a pattern without the \<open>g\<close> flag, as a pair:
  element 0, the matched text, and the elements from 1 on, one per capture group of the
  pattern, \<open>None\<close> (undefined) for a group that did not take part.
\<close>

type_synonym match_array = "string \<times> string option list"

definition result_array :: "re \<Rightarrow> string \<Rightarrow> string \<Rightarrow> string \<Rightarrow> caps \<Rightarrow> match_array option" where
  "result_array r pre pre' s' cp =
     Some (consumed pre pre', map (map_of cp) [1 ..< Suc (ngroups r)])"

text \<open>The leftmost match: the pattern is tried at every start position in turn.\<close>

fun search :: "re \<Rightarrow> string \<Rightarrow> string \<Rightarrow> match_array option" where
  "search r pre [] = rmatch r pre [] [] (result_array r pre)"
| "search r pre (x # xs) =
     (case rmatch r pre (x # xs) [] (result_array r pre) of
        Some m \<Rightarrow> Some m
      | None \<Rightarrow> search r (x # pre) xs)"

definition js_match :: "string \<Rightarrow> re \<Rightarrow> match_array option" where
  "js_match s r = search r [] s"

text \<open>\<open>m[0]\<close>, \<open>m.length\<close> and \<open>m[i]\<close> for \<open>i \<ge> 1\<close> (out of range is undefined).\<close>

definition whole :: "match_array \<Rightarrow> string" where
  "whole m = fst m"

definition arr_length :: "match_array \<Rightarrow> nat" where
  "arr_length m = Suc (length (snd m))"

definition grp :: "match_array \<Rightarrow> nat \<Rightarrow> string option" where
  "grp m i = (if 1 \<le> i \<and> i \<le> length (snd m) then snd m ! (i - 1) else None)"

fun seqs :: "re list \<Rightarrow> re \<Rightarrow> re" where
  "seqs [] r = r"
| "seqs (x # xs) r = Seq x (seqs xs r)"

text \<open>A literal text (the empty one matches the empty string).\<close>

fun str :: "string \<Rightarrow> re" where
  "str [] = Rep Dot 0 (Some 0)"
| "str [c] = Atom (Lit c)"
| "str (c # cs) = Seq (Atom (Lit c)) (str cs)"

subsection \<open>The three patterns\<close>

text \<open>\<^verbatim>\<open>/https?:\/\/(www\.)?[-a-zA-Z0-9@:%._\+~#=]{2,256}\.[a-z]{2,10}\b([-a-zA-Z0-9@:%_\+.~#?&//=]*)/\<close>\<close>

definition url_host_cs :: charset where
  "url_host_cs =
     [(CHR ''-'', CHR ''-''), (CHR ''a'', CHR ''z''), (CHR ''A'', CHR ''Z''), (CHR ''0'', CHR ''9''),
      (CHR ''@'', CHR ''@''), (CHR '':'', CHR '':''), (CHR ''%'', CHR ''%''), (CHR ''.'', CHR ''.''),
      (CHR ''_'', CHR ''_''), (CHR ''+'', CHR ''+''), (CHR ''~'', CHR ''~''), (CHR ''#'', CHR ''#''),
      (CHR ''='', CHR ''='')]"

definition url_path_cs :: charset where
  "url_path_cs =
     [(CHR ''-'', CHR ''-''), (CHR ''a'', CHR ''z''), (CHR ''A'', CHR ''Z''), (CHR ''0'', CHR ''9''),
      (CHR ''@'', CHR ''@''), (CHR '':'', CHR '':''), (CHR ''%'', CHR ''%''), (CHR ''_'', CHR ''_''),
      (CHR ''+'', CHR ''+''), (CHR ''.'', CHR ''.''), (CHR ''~'', CHR ''~''), (CHR ''#'', CHR ''#''),
      (CHR ''?'', CHR ''?''), (CHR ''&'', CHR ''&''), (CHR ''/'', CHR ''/''), (CHR ''='', CHR ''='')]"

definition url_re :: re where
  "url_re =
     seqs [str ''http'', Opt (Atom (Lit CHR ''s'')), str ''://'',
           Opt (Grp 1 (str ''www.'')),
           Rep (Cls url_host_cs) 2 (Some 256),
           Atom (Lit CHR ''.''),
           Rep (Cls [(CHR ''a'', CHR ''z'')]) 2 (Some 10),
           WordB]
          (Grp 2 (Rep (Cls url_path_cs) 0 None))"

text \<open>\<^verbatim>\<open>/(?:https?:\/\/|\/\/)?(?:www\.|m\.)?(?:youtu\.be\/|youtube\.com\/(?:embed\/|v\/|watch\?v=|watch\?.+&v=))([\w-]{11})(?![\w-])/\<close>\<close>

definition id_cs :: charset where
  "id_cs = word_cs @ [(CHR ''-'', CHR ''-'')]"

definition youtube_re :: re where
  "youtube_re =
     seqs [Opt (Alt (seqs [str ''http'', Opt (Atom (Lit CHR ''s''))] (str ''://'')) (str ''//'')),
           Opt (Alt (str ''www.'') (str ''m.'')),
           Alt (str ''youtu.be/'')
               (Seq (str ''youtube.com/'')
                    (Alt (str ''embed/'')
                    (Alt (str ''v/'')
                    (Alt (str ''watch?v='')
                         (seqs [str ''watch?'', Rep Dot 1 None] (str ''&v='')))))),
           Grp 1 (Rep (Cls id_cs) 11 (Some 11))]
          (NotAhead (Cls id_cs))"

text \<open>The end of \<open>youtube_re\<close>: the capture group and the look-ahead.\<close>

definition id_tail :: re where
  "id_tail = Seq (Grp 1 (Rep (Cls id_cs) 11 (Some 11))) (NotAhead (Cls id_cs))"

text \<open>\<^verbatim>\<open>/(?:https?:\/\/)?(?:media0\.)?(?:giphy\.com\/media\/)/\<close>\<close>

definition giphy_re :: re where
  "giphy_re =
     seqs [Opt (seqs [str ''http'', Opt (Atom (Lit CHR ''s''))] (str ''://'')),
           Opt (str ''media0.'')]
          (str ''giphy.com/media/'')"

text \<open>
  The test \<open>youtube !== null && youtube[1].length === 11\<close>, giving \<open>youtube[1]\<close> when it
  holds.  Reading \<open>.length\<close> of an undefined \<open>youtube[1]\<close> would be a \<open>TypeError\<close> in
  JavaScript; group 1 of \<open>youtube_re\<close> takes part in every match (lemma
  \<open>youtube_group1\<close> below), so that case does not arise.
\<close>

definition id11 :: "match_array option \<Rightarrow> string option" where
  "id11 youtube =
     (case youtube of
        None \<Rightarrow> None
      | Some y \<Rightarrow>
          (case grp y 1 of
             None \<Rightarrow> None
           | Some videoId \<Rightarrow> if length videoId = 11 then Some videoId else None))"

section \<open>The page: ambient configuration and mutable state\<close>

text \<open>
  What the handlers read but never write: \<open>document.contxt\<close>, the \<open>data-maxlen\<close>
  attribute of the text box (absent: \<open>None\<close>), and the form inputs that
  \<open>submitStatusUpdate\<close> copies into the request, already as the text that
  \<open>FormData.append\<close> stores.
\<close>

record env =
  github_handle :: jsval
  youtube_key :: string
  maxlen :: "nat option"
  ask :: string
  what :: string
  tab :: string
  csrfmiddlewaretoken :: string

text \<open>The four inputs of \<open>#poll_container\<close>.\<close>

record poll =
  option1 :: string
  option2 :: string
  option3 :: string
  option4 :: string

type_synonym form = "(string \<times> string) list"

text \<open>
  A network request that has been issued, with what its completion handler closes
  over: \<open>videoId\<close> and \<open>youtube[0]\<close>, \<open>url\<close>, \<open>usernameFilter\<close>, and \<open>the_message\<close>.
\<close>

datatype request =
    GetVideoData string string string
  | GetMetadata string string
  | GetUsers string string
  | PostActivity form string

text \<open>What \<open>setTimeout\<close> has scheduled: the delay and the action.\<close>

datatype timer = HideDropdown

text \<open>The rows of \<open>#textarea-dropdown\<close>.\<close>

datatype dropdown_row = UserRow string string | NoMatch string

text \<open>The feed list \<open>.tab-section.active .activities\<close>: its \<open>page\<close> attribute and its content.\<close>

record feed =
  page_attr :: string
  html :: string

record page =
  embedded_resource :: jsval
  textarea :: string
  textarea_red :: bool
  btn_disabled :: bool
  draft :: "string option"
  thumbnail_title :: string
  thumbnail_provider :: string
  thumbnail_desc :: string
  thumbnail_img :: "string option"
  thumbnail_img_padded :: bool
  thumbnail_img_width :: "string option"
  thumbnail_shown :: bool
  preview_img :: jsval
  preview_shown :: bool
  dropdown :: "dropdown_row list"
  dropdown_shown :: bool
  poll_container :: "poll option"
  video_container :: "string option"
  activities :: "feed option"
  long_poller_runs :: nat
  alerts :: "(string \<times> string \<times> nat option) list"
  requests :: "request list"
  timers :: "(nat \<times> timer) list"

text \<open>
  \<open>draft\<close> is the entry of \<open>localStorage\<close> under \<open>lskey\<close>; \<open>preview_img\<close> is the value
  last given to the \<open>src\<close> attribute of \<open>#preview-img\<close>; \<open>video_container\<close> holds the
  \<open>data-gfx\<close> of \<open>#video_container\<close> while that element exists.
\<close>

definition fetchData :: "request \<Rightarrow> page \<Rightarrow> page" where
  "fetchData r s = s\<lparr>requests := requests s @ [r]\<rparr>"

definition alert :: "string \<Rightarrow> string \<Rightarrow> nat option \<Rightarrow> page \<Rightarrow> page" where
  "alert msg kind ms s = s\<lparr>alerts := alerts s @ [(msg, kind, ms)]\<rparr>"

text \<open>jQuery's \<open>.text(v)\<close> changes nothing when \<open>v\<close> is undefined.\<close>

definition set_text :: "string option \<Rightarrow> string \<Rightarrow> string" where
  "set_text v old = (case v of None \<Rightarrow> old | Some t \<Rightarrow> t)"

section \<open>Selecting a GIF\<close>

definition selectGif :: "jsval \<Rightarrow> page \<Rightarrow> page" where
  "selectGif data_src s =
     s\<lparr>embedded_resource := data_src, preview_img := data_src,
       preview_shown := True, thumbnail_shown := False\<rparr>"

section \<open>The input handler of the text box\<close>

text \<open>\<open>typeof embedded_resource === 'string' && embedded_resource.match(giphy_re)\<close>\<close>

definition gif_locked :: "page \<Rightarrow> bool" where
  "gif_locked s =
     (case embedded_resource s of
        JStr er \<Rightarrow> js_match er giphy_re \<noteq> None
      | JOther _ \<Rightarrow> False)"

definition video_url :: "string \<Rightarrow> string \<Rightarrow> string" where
  "video_url apiKey videoId =
     ''https://www.googleapis.com/youtube/v3/videos?key='' @ apiKey
       @ ''&fields=items(snippet(title))&part=snippet&id='' @ videoId"

definition metadata_url :: "string \<Rightarrow> string" where
  "metadata_url url = ''service/metadata/?url='' @ url"

definition users_url :: "string \<Rightarrow> string" where
  "users_url usernameFilter = ''/api/v0.1/users_fetch/?search='' @ usernameFilter"

text \<open>The branch taken when \<open>youtube\<close> matched with an 11-character id and \<open>no_lb\<close> holds.\<close>

definition youtube_branch :: "env \<Rightarrow> string \<Rightarrow> string \<Rightarrow> page \<Rightarrow> page" where
  "youtube_branch e y0 videoId s =
     (if embedded_resource s \<noteq> JStr y0
      then fetchData (GetVideoData (video_url (youtube_key e) videoId) videoId y0) s
      else s)"

text \<open>The final \<open>else\<close> branch.\<close>

definition none_branch :: "bool \<Rightarrow> page \<Rightarrow> page" where
  "none_branch no_lb s =
     (let s1 = s\<lparr>thumbnail_desc := []\<rparr>
      in if no_lb then s1\<lparr>embedded_resource := JStr [], thumbnail_shown := False\<rparr> else s1)"

text \<open>The \<open>else if (site && site.length > 1 && no_lb)\<close> branch, and the \<open>else\<close> after it.\<close>

definition link_branch :: "match_array option \<Rightarrow> bool \<Rightarrow> page \<Rightarrow> page" where
  "link_branch site no_lb s =
     (case site of
        Some m \<Rightarrow>
          if arr_length m > 1 \<and> no_lb
          then fetchData (GetMetadata (metadata_url (whole m)) (whole m)) s
          else none_branch no_lb s
      | None \<Rightarrow> none_branch no_lb s)"

text \<open>The preview part of the handler, after the GIF test.\<close>

definition detect :: "env \<Rightarrow> string \<Rightarrow> bool \<Rightarrow> page \<Rightarrow> page" where
  "detect e v no_lb s =
     (let site = js_match v url_re;
          youtube = js_match v youtube_re
      in case (youtube, id11 youtube) of
           (Some y, Some videoId) \<Rightarrow>
             if no_lb then youtube_branch e (whole y) videoId s
             else link_branch site no_lb s
         | _ \<Rightarrow> link_branch site no_lb s)"

text \<open>The mention part of the handler, from \<open>if (lastWord.startsWith('@'))\<close> on.\<close>

definition mention :: "string \<Rightarrow> page \<Rightarrow> page" where
  "mention lastWord s =
     (if startsWith lastWord ''@'' then
        (let usernameFilter = slice1 lastWord
         in if length usernameFilter > 2
            then fetchData (GetUsers (users_url usernameFilter) usernameFilter) s
            else s)
      else s\<lparr>dropdown_shown := False\<rparr>)"

text \<open>
  The handler of \<open>input\<close> on \<open>#textarea\<close>, for an event of the browser;
  \<open>e.target.value\<close> is the text of the box and \<open>inputType\<close> is
  \<open>e.originalEvent.inputType\<close>.
\<close>

definition on_input :: "env \<Rightarrow> string \<Rightarrow> page \<Rightarrow> page" where
  "on_input e inputType s =
     (let v = textarea s;
          lastWord = last (js_split CHR '' '' v);
          no_lb = (inputType \<noteq> ''insertLineBreak'')
      in if gif_locked s then s
         else mention lastWord (detect e v no_lb s))"

text \<open>An edit by the user: the browser stores the new text, then the handler runs.\<close>

definition user_edit :: "env \<Rightarrow> string \<times> string \<Rightarrow> page \<Rightarrow> page" where
  "user_edit e ev s = on_input e (snd ev) (s\<lparr>textarea := fst ev\<rparr>)"

text \<open>\<open>$('#textarea').focusout\<close> and the timer it sets.\<close>

definition on_focusout :: "page \<Rightarrow> page" where
  "on_focusout s = s\<lparr>timers := timers s @ [(100, HideDropdown)]\<rparr>"

fun fire :: "timer \<Rightarrow> page \<Rightarrow> page" where
  "fire HideDropdown s = s\<lparr>dropdown_shown := False\<rparr>"

section \<open>The completion handlers of the lookups\<close>

text \<open>The video lookup: \<open>items\<close> are the titles \<open>response.items[i].snippet.title\<close>.\<close>

definition on_video_data :: "string \<Rightarrow> string \<Rightarrow> string list \<Rightarrow> page \<Rightarrow> page" where
  "on_video_data videoId y0 items s =
     (case items of
        title # _ \<Rightarrow>
          s\<lparr>thumbnail_title := title,
            thumbnail_provider := ''Youtube'',
            thumbnail_img := Some (''https://img.youtube.com/vi/'' @ videoId @ ''/default.jpg''),
            embedded_resource := JStr y0,
            thumbnail_shown := True,
            preview_shown := False\<rparr>
      | [] \<Rightarrow>
          s\<lparr>thumbnail_shown := False, thumbnail_desc := [], embedded_resource := JStr []\<rparr>)"

text \<open>The link lookup: the response is falsy (\<open>None\<close>) or an object whose fields may be absent.\<close>

record link_meta =
  meta_title :: "string option"
  meta_link :: "string option"
  meta_description :: "string option"
  meta_image :: "string option"

definition shorten :: "string option \<Rightarrow> string option" where
  "shorten description =
     (case description of
        None \<Rightarrow> None
      | Some d \<Rightarrow> if d \<noteq> [] \<and> length d > 200 then Some (substr0 200 d @ ''...'') else Some d)"

definition on_metadata :: "string \<Rightarrow> link_meta option \<Rightarrow> page \<Rightarrow> page" where
  "on_metadata url response s =
     (case response of
        Some r \<Rightarrow>
          (let desc = shorten (meta_description r);
               s1 = s\<lparr>thumbnail_title := set_text (meta_title r) (thumbnail_title s),
                      thumbnail_provider := set_text (meta_link r) (thumbnail_provider s),
                      thumbnail_desc := set_text desc (thumbnail_desc s)\<rparr>;
               s2 = (case meta_image r of
                       Some (c # cs) \<Rightarrow>
                         s1\<lparr>thumbnail_img := Some (c # cs), thumbnail_img_padded := False,
                            thumbnail_img_width := Some ''130%''\<rparr>
                     | _ \<Rightarrow>
                         s1\<lparr>thumbnail_img_padded := True, thumbnail_img_width := Some ''8rem'',
                            thumbnail_img := Some ''https://s.gitcoin.co/static/v2/images/team/gitcoinbot.c1e81ab42f13.png''\<rparr>)
           in s2\<lparr>embedded_resource := JStr url, thumbnail_shown := True, preview_shown := False\<rparr>)
      | None \<Rightarrow>
          s\<lparr>thumbnail_shown := False, thumbnail_desc := [], embedded_resource := JStr []\<rparr>)"

text \<open>
  The user lookup: \<open>profiles\<close> is \<open>response.data\<close> as pairs of \<open>avatar_url\<close> (empty when
  absent) and \<open>handle\<close>; \<open>static_url\<close> is the global of that name.
\<close>

definition user_row :: "string \<Rightarrow> string \<times> string \<Rightarrow> dropdown_row" where
  "user_row static_url p =
     UserRow (if fst p \<noteq> [] then fst p else static_url @ ''v2/images/user-placeholder.png'') (snd p)"

definition on_users :: "string \<Rightarrow> string \<Rightarrow> (string \<times> string) list \<Rightarrow> page \<Rightarrow> page" where
  "on_users static_url usernameFilter profiles s =
     s\<lparr>dropdown := (if profiles \<noteq> [] then map (user_row static_url) profiles
                     else [NoMatch (''No username matching '' @ [CHR 0x27] @ usernameFilter @ [CHR 0x27])]),
       dropdown_shown := True\<rparr>"

section \<open>Submitting\<close>

text \<open>
  \<open>submitStatusUpdate\<close> either returns or throws (calling \<open>.match\<close> on a truthy
  \<open>embedded_resource\<close> that is not a string is a \<open>TypeError\<close>); both leave a page behind.
\<close>

datatype outcome = Returned page | Threw page

fun page_of :: "outcome \<Rightarrow> page" where
  "page_of (Returned s) = s"
| "page_of (Threw s) = s"

text \<open>What \<open>FormData.append\<close> stores for \<open>$('#thumbnail-img').attr('src')\<close>.\<close>

definition attr_text :: "string option \<Rightarrow> string" where
  "attr_text a = (case a of None \<Rightarrow> ''undefined'' | Some t \<Rightarrow> t)"

text \<open>The fields appended inside \<open>if (embedded_resource)\<close>; \<open>None\<close> is the \<open>TypeError\<close>.\<close>

definition resource_fields :: "page \<Rightarrow> form option" where
  "resource_fields s =
     (if truthy (embedded_resource s) then
        (case embedded_resource s of
           JOther _ \<Rightarrow> None
         | JStr er \<Rightarrow>
             (let title = thumbnail_title s;
                  link = thumbnail_provider s;
                  description = thumbnail_desc s;
                  image = attr_text (thumbnail_img s);
                  youtube = js_match er youtube_re
              in if js_match er giphy_re \<noteq> None then
                   Some [(''resource'', ''gif''), (''resourceProvider'', ''giphy''),
                         (''resourceId'', er)]
                 else
                   (case id11 youtube of
                      Some videoId \<Rightarrow>
                        Some [(''resource'', ''video''), (''resourceProvider'', ''youtube''),
                              (''resourceId'', videoId), (''title'', title),
                              (''description'', description), (''image'', image)]
                    | None \<Rightarrow>
                        Some [(''resource'', ''content''), (''resourceProvider'', link),
                              (''resourceId'', er), (''title'', title),
                              (''description'', description), (''image'', image)])))
      else Some [])"

text \<open>\<open>$('#poll_container input[name=option' + i + ']').val()\<close>: undefined without such an input.\<close>

definition poll_val :: "poll option \<Rightarrow> nat \<Rightarrow> string option" where
  "poll_val pc i =
     (case pc of
        None \<Rightarrow> None
      | Some p \<Rightarrow>
          if i = 1 then Some (option1 p)
          else if i = 2 then Some (option2 p)
          else if i = 3 then Some (option3 p)
          else if i = 4 then Some (option4 p)
          else None)"

text \<open>The decimal text of the loop index \<open>i\<close>, which stays below 5.\<close>

definition digit :: "nat \<Rightarrow> string" where
  "digit i = take 1 (drop i ''0123456789'')"

definition poll_field :: "poll option \<Rightarrow> nat \<Rightarrow> form" where
  "poll_field pc i =
     (case poll_val pc i of
        None \<Rightarrow> []
      | Some val \<Rightarrow> if val \<noteq> [] then [(''option'' @ digit i, val)] else [])"

definition poll_fields :: "poll option \<Rightarrow> form" where
  "poll_fields pc = concat (map (poll_field pc) [0 ..< 5])"

definition video_fields :: "string option \<Rightarrow> form" where
  "video_fields vc =
     (case vc of
        None \<Rightarrow> []
      | Some gfx \<Rightarrow> [(''has_video'', ''1''), (''video_gfx'', gfx)])"

definition submitStatusUpdate :: "env \<Rightarrow> page \<Rightarrow> outcome" where
  "submitStatusUpdate e s =
     (if btn_disabled s then Returned s
      else
        (let the_message = trim (textarea s);
             data1 = [(''ask'', ask e), (''data'', the_message), (''what'', what e), (''tab'', tab e)]
                       @ video_fields (video_container s);
             s1 = s\<lparr>textarea := [], draft := Some []\<rparr>;
             data2 = data1 @ [(''csrfmiddlewaretoken'', csrfmiddlewaretoken e)]
         in case resource_fields s1 of
              None \<Rightarrow> Threw s1
            | Some rf \<Rightarrow>
                (let data3 = data2 @ rf @ poll_fields (poll_container s1);
                     s2 = s1\<lparr>poll_container := None, video_container := None\<rparr>
                 in Returned (fetchData (PostActivity data3 the_message) s2))))"

text \<open>\<open>fail_callback\<close>, which closes over \<open>the_message\<close>.\<close>

definition fail_callback :: "string \<Rightarrow> page \<Rightarrow> page" where
  "fail_callback the_message s =
     alert ''An error occurred. Please try again.'' ''error'' None
       (s\<lparr>textarea := the_message, draft := Some the_message\<rparr>)"

text \<open>How the request to \<open>/api/v0.1/activity\<close> ends: a response with a status, or a rejection.\<close>

datatype reply = Status nat | NetworkError

definition on_reply :: "string \<Rightarrow> reply \<Rightarrow> page \<Rightarrow> page" where
  "on_reply the_message r s =
     (case r of
        NetworkError \<Rightarrow> fail_callback the_message s
      | Status n \<Rightarrow>
          if n = 200 then
            (let s1 = s\<lparr>thumbnail_shown := False, thumbnail_title := [], thumbnail_provider := [],
                          thumbnail_desc := [], thumbnail_img := Some [], preview_shown := False,
                          preview_img := JStr [], embedded_resource := JStr []\<rparr>;
                 s2 = alert ''Status has been saved.'' ''success'' (Some 1000) s1
             in case activities s2 of
                  None \<Rightarrow> s2\<lparr>long_poller_runs := Suc (long_poller_runs s2)\<rparr>
                | Some f \<Rightarrow> s2\<lparr>activities := Some \<lparr>page_attr = ''0'', html = []\<rparr>, textarea := []\<rparr>)
          else fail_callback the_message s)"

section \<open>Clicks and keys\<close>

text \<open>The handler of \<open>click\<close> on \<open>#textarea, #btn_post\<close>.\<close>

definition login_click :: "env \<Rightarrow> page \<Rightarrow> page" where
  "login_click e s =
     (if \<not> truthy (github_handle e) then alert ''Please login first.'' ''error'' None s else s)"

text \<open>
  A click on \<open>#btn_post\<close> runs its listeners in the order of their registration: the one
  added with \<open>addEventListener\<close>, which submits, then the one above.
\<close>

definition click_btn_post :: "env \<Rightarrow> page \<Rightarrow> page" where
  "click_btn_post e s = login_click e (page_of (submitStatusUpdate e s))"

definition click_textarea :: "env \<Rightarrow> page \<Rightarrow> page" where
  "click_textarea e s = login_click e s"

text \<open>
  The handler of \<open>focus change paste keydown keyup blur\<close> on \<open>#textarea\<close>, without the
  character counter; \<open>focused\<close> is \<open>$('#textarea').is(':focus')\<close>.
\<close>

record key_event =
  shiftKey :: bool
  keyCode :: "nat option"
  focused :: bool

text \<open>\<open>len > max_len\<close>, false when \<open>max_len\<close> is undefined.\<close>

definition exceeds :: "nat \<Rightarrow> nat option \<Rightarrow> bool" where
  "exceeds len max_len = (case max_len of None \<Rightarrow> False | Some m \<Rightarrow> len > m)"

definition on_key :: "env \<Rightarrow> key_event \<Rightarrow> page \<Rightarrow> outcome" where
  "on_key e ev s =
     (let max_len = maxlen e;
          len = length (trim (textarea s));
          s1 = s\<lparr>draft := Some (textarea s)\<rparr>
      in if exceeds (length (trim (textarea s1))) max_len then
           Returned (s1\<lparr>textarea_red := True, btn_disabled := True\<rparr>)
         else if len > 4 then
           (let s2 = s1\<lparr>btn_disabled := False, textarea_red := False\<rparr>
            in if focused ev \<and> \<not> shiftKey ev \<and> keyCode ev = Some 13
               then submitStatusUpdate e s2
               else Returned s2)
         else Returned (s1\<lparr>btn_disabled := True\<rparr>))"

section \<open>Reading a request body, and example inputs\<close>

text \<open>The fields of a request body that describe the embedded resource.\<close>

definition resource_part :: "form \<Rightarrow> form" where
  "resource_part body =
     filter (\<lambda>kv. fst kv \<in> set [''resource'', ''resourceProvider'', ''resourceId'',
                                    ''title'', ''description'', ''image'']) body"

text \<open>A visitor who is not logged in, and the page as it is loaded with no draft stored.\<close>

definition env0 :: env where
  "env0 = \<lparr>github_handle = JStr [], youtube_key = ''KEY'', maxlen = Some 280,
            ask = ''undefined'', what = ''status'', tab = ''everywhere'',
            csrfmiddlewaretoken = ''token''\<rparr>"

definition page0 :: page where
  "page0 = \<lparr>embedded_resource = JStr [], textarea = [], textarea_red = False,
             btn_disabled = True, draft = None, thumbnail_title = [], thumbnail_provider = [],
             thumbnail_desc = [], thumbnail_img = None, thumbnail_img_padded = False,
             thumbnail_img_width = None, thumbnail_shown = False, preview_img = JStr [],
             preview_shown = False, dropdown = [], dropdown_shown = False,
             poll_container = None, video_container = None, activities = None,
             long_poller_runs = 0, alerts = [], requests = [], timers = []\<rparr>"

definition enter_key :: key_event where
  "enter_key = \<lparr>shiftKey = False, keyCode = Some 13, focused = True\<rparr>"

definition gif_src :: string where
  "gif_src = ''https://media0.giphy.com/media/abc/giphy.webp''"

definition video_text :: string where
  "video_text = ''check this https://youtu.be/dQw4w9WgXcQ''"

definition link_text :: string where
  "link_text = ''see https://example.com/page''"

text \<open>A post of \<open>hello world\<close> with a GIF selected, before and after it is submitted.\<close>

definition gif_page :: page where
  "gif_page = selectGif (JStr gif_src) (page0\<lparr>textarea := ''hello world'', btn_disabled := False\<rparr>)"

definition gif_sent :: page where
  "gif_sent = gif_page\<lparr>textarea := [], draft := Some [],
     requests := [PostActivity [(''ask'', ''undefined''), (''data'', ''hello world''),
        (''what'', ''status''), (''tab'', ''everywhere''), (''csrfmiddlewaretoken'', ''token''),
        (''resource'', ''gif''), (''resourceProvider'', ''giphy''), (''resourceId'', gif_src)]
        ''hello world'']\<rparr>"

definition poll_page :: page where
  "poll_page = gif_page\<lparr>poll_container := Some \<lparr>option1 = ''yes'', option2 = ''no'', option3 = [], option4 = []\<rparr>,
                          video_container := Some ''video1.gif''\<rparr>"

definition poll_sent :: page where
  "poll_sent = gif_page\<lparr>textarea := [], draft := Some [],
     requests := [PostActivity [(''ask'', ''undefined''), (''data'', ''hello world''),
        (''what'', ''status''), (''tab'', ''everywhere''), (''has_video'', ''1''),
        (''video_gfx'', ''video1.gif''), (''csrfmiddlewaretoken'', ''token''),
        (''resource'', ''gif''), (''resourceProvider'', ''giphy''), (''resourceId'', gif_src),
        (''option1'', ''yes''), (''option2'', ''no'')]
        ''hello world'']\<rparr>"

definition long_meta :: link_meta where
  "long_meta = \<lparr>meta_title = Some ''Example'', meta_link = Some ''example.com'',
                 meta_description = Some (replicate 201 CHR ''a''), meta_image = None\<rparr>"

text \<open>The requests issued between two pages, and the two kinds of lookup among them.\<close>

definition issued :: "page \<Rightarrow> page \<Rightarrow> request list" where
  "issued s s' = drop (length (requests s)) (requests s')"

fun is_metadata :: "request \<Rightarrow> bool" where
  "is_metadata (GetVideoData u i m) = True"
| "is_metadata (GetMetadata u m) = True"
| "is_metadata r = False"

fun is_users :: "request \<Rightarrow> bool" where
  "is_users (GetUsers u f) = True"
| "is_users r = False"

text \<open>The video of \<open>video_text\<close> with its lookup answered, and the link of \<open>link_text\<close> likewise.\<close>

definition seen_video_page :: page where
  "seen_video_page =
     on_video_data ''dQw4w9WgXcQ'' ''https://youtu.be/dQw4w9WgXcQ'' [''A title'']
       (user_edit env0 (video_text, ''insertText'') page0)"

definition linked_page :: page where
  "linked_page =
     on_metadata ''https://example.com/page'' (Some long_meta)
       (user_edit env0 (link_text, ''insertText'') page0)"

text \<open>The text \<open>hello world\<close> typed by the visitor of \<open>env0\<close>, who is not logged in.\<close>

definition typed_page :: page where
  "typed_page = page0\<lparr>textarea := ''hello world''\<rparr>"

text \<open>A mention typed while a GIF is selected, and one typed on a new line.\<close>

definition gif_mention :: page where
  "gif_mention = gif_page\<lparr>textarea := ''hi @bobby'', dropdown_shown := True\<rparr>"

definition line_mention :: page where
  "line_mention = page0\<lparr>textarea := ''hi'' @ [CHR 0x0A] @ ''@bobby''\<rparr>"

definition space_mention :: page where
  "space_mention = page0\<lparr>textarea := ''hi @bobby'', dropdown_shown := True\<rparr>"

text \<open>
  A GIF selected while the lookup for the link of \<open>link_text\<close> is still pending, and the
  page once that lookup has been answered.
\<close>

definition gif_pending :: page where
  "gif_pending = selectGif (JStr gif_src) (user_edit env0 (link_text, ''insertText'') page0)"

definition raced_page :: page where
  "raced_page = on_metadata ''https://example.com/page'' (Some long_meta) gif_pending"

text \<open>
  A logged-in visitor, an event of \<open>blur\<close> on the text box, and the page after
  \<open>hello world\<close> has been posted with a click on the button.
\<close>

definition env1 :: env where
  "env1 = env0\<lparr>github_handle := JStr ''octocat''\<rparr>"

definition blur_event :: key_event where
  "blur_event = \<lparr>shiftKey = False, keyCode = None, focused = False\<rparr>"

definition posted_once :: page where
  "posted_once = click_btn_post env1 (page_of (on_key env1 blur_event typed_page))"

section \<open>Facts about the matcher\<close>

text \<open>
  A successful match has passed through its continuation; a successful repetition has
  taken a number of characters within its bounds.
\<close>

lemma rep_cont:
  "rep a lo hi pre s cp k = Some x \<Longrightarrow>
   \<exists>n. n \<le> length s \<and> lo \<le> n \<and> (\<forall>h. hi = Some h \<longrightarrow> n \<le> h) \<and>
       k (rev (take n s) @ pre) (drop n s) cp = Some x"
proof (induction s arbitrary: lo hi pre)
  case Nil
  then show ?case by (auto split: if_splits)
next
  case (Cons c s)
  show ?case
  proof (cases "rep a (lo - 1) (map_option (\<lambda>h. h - 1) hi) (c # pre) s cp k = Some x \<and> atom_ok a c \<and> hi \<noteq> Some 0")
    case True
    then obtain n where n: "n \<le> length s" "lo - 1 \<le> n"
        "\<forall>h. map_option (\<lambda>h. h - 1) hi = Some h \<longrightarrow> n \<le> h"
        "k (rev (take n s) @ c # pre) (drop n s) cp = Some x"
      using Cons.IH by blast
    have "\<forall>h. hi = Some h \<longrightarrow> Suc n \<le> h"
      using n(3) True by (cases hi) auto
    with n show ?thesis
      by (intro exI [of _ "Suc n"]) auto
  next
    case False
    with Cons.prems have "lo = 0 \<and> k pre (c # s) cp = Some x"
      by (auto split: if_splits option.splits)
    then show ?thesis
      by (intro exI [of _ 0]) auto
  qed
qed

lemma rmatch_cont:
  "rmatch r pre s cp k = Some x \<Longrightarrow> \<exists>pre' s' cp'. k pre' s' cp' = Some x"
proof (induction r arbitrary: pre s cp k)
  case (Rep a lo hi)
  then show ?case using rep_cont [of a lo hi pre s cp k x] by auto
next
  case (Seq r1 r2)
  from Seq.prems obtain p1 s1 c1 where "rmatch r2 p1 s1 c1 k = Some x"
    using Seq.IH(1) by fastforce
  then show ?case using Seq.IH(2) by blast
next
  case (Grp n r)
  then show ?case by fastforce
qed (auto split: list.splits if_splits option.splits)

lemma search_cont:
  "search r pre s = Some m \<Longrightarrow> \<exists>pre' s'. rmatch r pre' s' [] (result_array r pre') = Some m"
  by (induction s arbitrary: pre) (auto split: option.splits)

lemma ngroups_str [simp]: "ngroups (str s) = 0"
  by (induction s rule: str.induct) auto

lemma ngroups_youtube: "ngroups youtube_re = 1"
  by (simp add: youtube_re_def)

lemma id_tail_group:
  assumes "rmatch id_tail pre s cp (result_array youtube_re pre0) = Some m"
  shows "\<exists>v. grp m 1 = Some v \<and> length v = 11"
proof -
  let ?K = "\<lambda>pre' s' cp'. rmatch (NotAhead (Cls id_cs)) pre' s' ((1, consumed pre pre') # cp') (result_array youtube_re pre0)"
  from assms have "rep (Cls id_cs) 11 (Some 11) pre s cp ?K = Some m"
    by (simp add: id_tail_def)
  then obtain n where n: "n \<le> length s" "11 \<le> n" "n \<le> 11"
      "?K (rev (take n s) @ pre) (drop n s) cp = Some m"
    using rep_cont [of "Cls id_cs" 11 "Some 11" pre s cp ?K m] by auto
  then have n11: "n = 11" by simp
  let ?v = "consumed pre (rev (take n s) @ pre)"
  have len: "length ?v = 11" using n(1) n11 by (simp add: consumed_def)
  from n(4) have "result_array youtube_re pre0 (rev (take n s) @ pre) (drop n s) ((1, ?v) # cp) = Some m"
    by (auto split: list.splits if_splits)
  then have "grp m 1 = Some ?v"
    by (auto simp: result_array_def ngroups_youtube grp_def)
  with len show ?thesis by blast
qed

lemma youtube_re_tail:
  "\<exists>a b c. youtube_re = Seq a (Seq b (Seq c id_tail))"
  by (simp add: youtube_re_def id_tail_def)

lemma youtube_group1:
  assumes "js_match v youtube_re = Some m"
  shows "\<exists>videoId. grp m 1 = Some videoId \<and> length videoId = 11"
proof -
  obtain a b c where re: "youtube_re = Seq a (Seq b (Seq c id_tail))"
    using youtube_re_tail by blast
  from assms obtain pre s where "rmatch youtube_re pre s [] (result_array youtube_re pre) = Some m"
    using search_cont by (fastforce simp: js_match_def)
  then have "rmatch a pre s [] (\<lambda>p1 s1 c1. rmatch b p1 s1 c1 (\<lambda>p2 s2 c2. rmatch c p2 s2 c2
               (\<lambda>p3 s3 c3. rmatch id_tail p3 s3 c3 (result_array youtube_re pre)))) = Some m"
    by (simp add: re)
  then obtain p1 s1 c1 where "rmatch b p1 s1 c1 (\<lambda>p2 s2 c2. rmatch c p2 s2 c2
               (\<lambda>p3 s3 c3. rmatch id_tail p3 s3 c3 (result_array youtube_re pre))) = Some m"
    using rmatch_cont by fastforce
  then obtain p2 s2 c2 where "rmatch c p2 s2 c2
               (\<lambda>p3 s3 c3. rmatch id_tail p3 s3 c3 (result_array youtube_re pre)) = Some m"
    using rmatch_cont by fastforce
  then obtain p3 s3 c3 where "rmatch id_tail p3 s3 c3 (result_array youtube_re pre) = Some m"
    using rmatch_cont by fastforce
  then show ?thesis by (rule id_tail_group)
qed

lemma empty_no_giphy: "js_match [] giphy_re = None"
  by (simp add: js_match_def giphy_re_def)


lemma js_split_nonempty: "js_split c s \<noteq> []"
  by (induction s) (auto split: list.splits)

section \<open>Facts about the handlers\<close>

lemma trim_abc: "trim ''abc'' = ''abc''"
  by (simp add: trim_def is_space_def)

lemma trim_hello: "trim ''hello world'' = ''hello world''"
  by (simp add: trim_def is_space_def)

lemma gif_src_giphy: "js_match gif_src giphy_re = Some (''https://media0.giphy.com/media/'', [])"
  by code_simp

lemma gif_src_youtube: "js_match gif_src youtube_re = None"
  by code_simp

lemma video_text_youtube:
  "js_match video_text youtube_re = Some (''https://youtu.be/dQw4w9WgXcQ'', [Some ''dQw4w9WgXcQ''])"
  by code_simp

lemma link_text_url: "js_match link_text url_re = Some (''https://example.com/page'', [None, Some ''/page''])"
  by code_simp

lemma link_text_youtube: "js_match link_text youtube_re = None"
  by code_simp

lemma id11_Some:
  "js_match v youtube_re = Some y \<Longrightarrow> \<exists>videoId. id11 (Some y) = Some videoId \<and> grp y 1 = Some videoId \<and> length videoId = 11"
  using youtube_group1 [of v y] by (auto simp: id11_def)

lemma submit_disabled: "btn_disabled s \<Longrightarrow> submitStatusUpdate e s = Returned s"
  by (simp add: submitStatusUpdate_def)

lemma resource_fields_frame [simp]:
  "resource_fields (s\<lparr>textarea := a, draft := b\<rparr>) = resource_fields s"
  by (simp add: resource_fields_def split: jsval.splits)

lemma submit_enabled:
  assumes "\<not> btn_disabled s" "submitStatusUpdate e s = Returned s'"
  shows "\<exists>rf. resource_fields s = Some rf \<and>
     s' = s\<lparr>textarea := [], draft := Some [], poll_container := None, video_container := None,
            requests := requests s @
              [PostActivity ([(''ask'', ask e), (''data'', trim (textarea s)), (''what'', what e), (''tab'', tab e)]
                  @ video_fields (video_container s) @ [(''csrfmiddlewaretoken'', csrfmiddlewaretoken e)]
                  @ rf @ poll_fields (poll_container s)) (trim (textarea s))]\<rparr>"
  using assms
  by (auto simp: submitStatusUpdate_def Let_def fetchData_def split: option.splits)

lemma fail_reply:
  assumes "r = NetworkError \<or> (\<exists>n. r = Status n \<and> n \<noteq> 200)"
  shows "on_reply m r s = s\<lparr>textarea := m, draft := Some m,
           alerts := alerts s @ [(''An error occurred. Please try again.'', ''error'', None)]\<rparr>"
  using assms by (auto simp: on_reply_def fail_callback_def alert_def)

lemma resource_part_append [simp]: "resource_part (xs @ ys) = resource_part xs @ resource_part ys"
  by (simp add: resource_part_def)



lemma resource_key_poll [simp]: "filter (\<lambda>kv. fst kv = ''resource'') (poll_fields pc) = []"
  by (simp add: poll_fields_def poll_field_def filter_concat split: option.splits)

lemma resource_key_video [simp]: "filter (\<lambda>kv. fst kv = ''resource'') (video_fields vc) = []"
  by (simp add: video_fields_def split: option.splits)


lemma gif_src_nonempty: "gif_src \<noteq> []"
  by (simp add: gif_src_def)

lemma gif_page_submit: "submitStatusUpdate env0 gif_page = Returned gif_sent"
  by (simp add: submitStatusUpdate_def gif_page_def gif_sent_def selectGif_def page0_def env0_def
      resource_fields_def gif_src_giphy gif_src_nonempty trim_hello video_fields_def poll_fields_def
      poll_field_def poll_val_def fetchData_def Let_def)

lemma poll_page_submit: "submitStatusUpdate env0 poll_page = Returned poll_sent"
  by (simp add: submitStatusUpdate_def poll_page_def poll_sent_def gif_page_def selectGif_def page0_def env0_def
      resource_fields_def gif_src_giphy gif_src_nonempty trim_hello video_fields_def poll_fields_def
      poll_field_def poll_val_def fetchData_def Let_def digit_def upt_rec)

lemma gif_page_fields:
  "\<not> btn_disabled gif_page" "embedded_resource gif_page = JStr gif_src"
  "requests gif_page = []" "textarea gif_page = ''hello world''" "alerts gif_page = []"
  by (simp_all add: gif_page_def selectGif_def page0_def)

lemma gif_locked_textarea [simp]: "gif_locked (s\<lparr>textarea := v\<rparr>) = gif_locked s"
  by (simp add: gif_locked_def)

lemma on_input_locked: "gif_locked s \<Longrightarrow> on_input e inputType s = s"
  by (simp add: on_input_def Let_def)

lemma user_edit_locked: "gif_locked s \<Longrightarrow> user_edit e ev s = s\<lparr>textarea := fst ev\<rparr>"
  by (simp add: user_edit_def on_input_locked)

lemma user_edits_locked:
  "gif_locked s \<Longrightarrow>
   foldl (\<lambda>s ev. user_edit e ev s) s evs = s\<lparr>textarea := last (textarea s # map fst evs)\<rparr>"
proof (induction evs arbitrary: s)
  case Nil
  then show ?case by simp
next
  case (Cons ev evs)
  have "foldl (\<lambda>s ev. user_edit e ev s) (s\<lparr>textarea := fst ev\<rparr>) evs
          = s\<lparr>textarea := fst ev\<rparr>\<lparr>textarea := last (textarea (s\<lparr>textarea := fst ev\<rparr>) # map fst evs)\<rparr>"
    using Cons.prems by (intro Cons.IH) simp
  then show ?case
    using Cons.prems by (simp add: user_edit_locked)
qed

lemma reply_200_unlocks: "\<not> gif_locked (on_reply m (Status 200) s)"
  by (simp add: on_reply_def gif_locked_def alert_def Let_def empty_no_giphy split: option.splits)

lemma gif_page_locked: "gif_locked gif_page"
  by (simp add: gif_locked_def gif_page_fields gif_src_giphy)

lemma issued_append [simp]: "requests s' = requests s @ rs \<Longrightarrow> issued s s' = rs"
  by (simp add: issued_def)

lemma requests_mention:
  "requests (mention w s) = requests s @
     (if startsWith w ''@'' \<and> 2 < length (slice1 w) then [GetUsers (users_url (slice1 w)) (slice1 w)] else [])"
  by (simp add: mention_def fetchData_def Let_def)

lemma requests_link_branch:
  "\<exists>ds. requests (link_branch site no_lb s) = requests s @ ds \<and> filter is_users ds = []"
  by (auto simp: link_branch_def none_branch_def fetchData_def Let_def split: option.splits)

lemma requests_youtube_branch:
  "requests (youtube_branch e y0 videoId s) = requests s @
     (if embedded_resource s \<noteq> JStr y0 then [GetVideoData (video_url (youtube_key e) videoId) videoId y0] else [])"
  by (simp add: youtube_branch_def fetchData_def)

lemma requests_detect:
  "\<exists>ds. requests (detect e v no_lb s) = requests s @ ds \<and> filter is_users ds = []"
proof -
  have "\<exists>ds. requests (youtube_branch e y0 videoId s) = requests s @ ds \<and> filter is_users ds = []"
    for y0 videoId
    by (simp add: requests_youtube_branch)
  then show ?thesis
    using requests_link_branch [of "js_match v url_re" no_lb s]
    by (auto simp: detect_def Let_def split: option.splits)
qed

lemma detect_youtube:
  assumes "js_match v youtube_re = Some y" "id11 (Some y) = Some videoId"
  shows "detect e v True s = youtube_branch e (whole y) videoId s"
  using assms by (simp add: detect_def Let_def)

lemma video_text_split: "last (js_split CHR '' '' video_text) = ''https://youtu.be/dQw4w9WgXcQ''"
  by (simp add: video_text_def)

lemma video_text_url:
  "js_match video_text url_re = Some (''https://youtu.be/dQw4w9WgXcQ'', [None, Some ''/dQw4w9WgXcQ''])"
  by code_simp

lemma first_video_edit:
  "user_edit env0 (video_text, ''insertText'') page0 =
     page0\<lparr>textarea := video_text,
           requests := [GetVideoData (video_url ''KEY'' ''dQw4w9WgXcQ'') ''dQw4w9WgXcQ'' ''https://youtu.be/dQw4w9WgXcQ'']\<rparr>"
  by (simp add: user_edit_def on_input_def Let_def gif_locked_def page0_def empty_no_giphy
      detect_def video_text_youtube video_text_url id11_def grp_def whole_def youtube_branch_def
      fetchData_def env0_def mention_def video_text_split startsWith_def)

lemma seen_video_fields:
  "textarea seen_video_page = video_text"
  "embedded_resource seen_video_page = JStr ''https://youtu.be/dQw4w9WgXcQ''"
  "thumbnail_provider seen_video_page = ''Youtube''"
  "thumbnail_img seen_video_page = Some ''https://img.youtube.com/vi/dQw4w9WgXcQ/default.jpg''"
  by (simp_all add: seen_video_page_def first_video_edit on_video_data_def)

lemma youtube_url_no_giphy: "js_match ''https://youtu.be/dQw4w9WgXcQ'' giphy_re = None"
  by code_simp

lemma seen_video_unlocked: "\<not> gif_locked seen_video_page"
  by (simp add: gif_locked_def seen_video_fields youtube_url_no_giphy)

lemma page0_video_unlocked: "\<not> gif_locked (page0\<lparr>textarea := video_text\<rparr>)"
  by (simp add: gif_locked_def page0_def empty_no_giphy)

lemma video_text_id11: "id11 (Some (''https://youtu.be/dQw4w9WgXcQ'', [Some ''dQw4w9WgXcQ''])) = Some ''dQw4w9WgXcQ''"
  by (simp add: id11_def grp_def)

lemma link_text_split: "last (js_split CHR '' '' link_text) = ''https://example.com/page''"
  by (simp add: link_text_def)

lemma first_link_edit:
  "user_edit env0 (link_text, ''insertText'') page0 =
     page0\<lparr>textarea := link_text,
           requests := [GetMetadata (metadata_url ''https://example.com/page'') ''https://example.com/page'']\<rparr>"
  by (simp add: user_edit_def on_input_def Let_def gif_locked_def page0_def empty_no_giphy
      detect_def link_text_youtube link_text_url id11_def link_branch_def arr_length_def whole_def
      fetchData_def mention_def link_text_split startsWith_def)

lemma linked_page_fields:
  "textarea linked_page = link_text"
  "embedded_resource linked_page = JStr ''https://example.com/page''"
  "requests linked_page = [GetMetadata (metadata_url ''https://example.com/page'') ''https://example.com/page'']"
  by (simp_all add: linked_page_def first_link_edit on_metadata_def Let_def long_meta_def)

lemma link_url_no_giphy: "js_match ''https://example.com/page'' giphy_re = None"
  by code_simp

lemma linked_page_unlocked: "\<not> gif_locked linked_page"
  by (simp add: gif_locked_def linked_page_fields link_url_no_giphy)

lemma typed_page_key:
  "on_key env0 enter_key typed_page =
     Returned (typed_page\<lparr>textarea := [], draft := Some [], btn_disabled := False,
       requests := [PostActivity [(''ask'', ''undefined''), (''data'', ''hello world''),
          (''what'', ''status''), (''tab'', ''everywhere''), (''csrfmiddlewaretoken'', ''token'')]
          ''hello world'']\<rparr>)"
  by (simp add: on_key_def typed_page_def page0_def env0_def enter_key_def trim_hello exceeds_def
      Let_def submitStatusUpdate_def resource_fields_def video_fields_def poll_fields_def
      poll_field_def poll_val_def fetchData_def)

lemma issued_on_input:
  assumes "\<not> gif_locked s" and "w = last (js_split CHR '' '' (textarea s))"
  shows "filter is_users (issued s (on_input e inputType s)) =
           (if startsWith w ''@'' \<and> 2 < length (slice1 w)
            then [GetUsers (users_url (slice1 w)) (slice1 w)] else [])"
proof -
  obtain ds where ds: "requests (detect e (textarea s) (inputType \<noteq> ''insertLineBreak'') s) = requests s @ ds"
      "filter is_users ds = []"
    using requests_detect by blast
  have "on_input e inputType s = mention w (detect e (textarea s) (inputType \<noteq> ''insertLineBreak'') s)"
    using assms by (simp add: on_input_def Let_def)
  then have "issued s (on_input e inputType s) = ds @
      (if startsWith w ''@'' \<and> 2 < length (slice1 w) then [GetUsers (users_url (slice1 w)) (slice1 w)] else [])"
    by (simp add: issued_def requests_mention ds(1))
  then show ?thesis
    by (simp add: ds(2))
qed

lemma dropdown_on_input:
  assumes "\<not> gif_locked s" and "w = last (js_split CHR '' '' (textarea s))" and "\<not> startsWith w ''@''"
  shows "\<not> dropdown_shown (on_input e inputType s)"
  using assms by (simp add: on_input_def Let_def mention_def)

lemma mention_split: "last (js_split CHR '' '' ''hi @bobby'') = ''@bobby''"
  by simp

lemma line_split: "last (js_split CHR '' '' (''hi'' @ [CHR 0x0A] @ ''@bobby'')) = ''hi'' @ [CHR 0x0A] @ ''@bobby''"
  by simp

lemma gif_mention_locked: "gif_locked gif_mention"
  by (simp add: gif_mention_def gif_locked_def gif_page_fields gif_src_giphy)

lemma space_mention_unlocked: "\<not> gif_locked space_mention"
  by (simp add: space_mention_def gif_locked_def page0_def empty_no_giphy)

text \<open>
  An input event that finds the GIF lock leaves the page as it is, and the key handler
  disables the post button for a text that is too short or too long.
\<close>

lemma input_keeps_gif_lock:
  assumes "gif_locked s"
  shows "on_input e inputType s = s \<and>
         foldl (\<lambda>s ev. user_edit e ev s) s evs = s\<lparr>textarea := last (textarea s # map fst evs)\<rparr> \<and>
         \<not> gif_locked (on_reply m (Status 200) s)"
  using assms by (simp add: on_input_locked user_edits_locked reply_200_unlocks)

lemma on_key_disables:
  "(btn_disabled s \<longrightarrow> submitStatusUpdate e s = Returned s) \<and>
   (length (trim (textarea s)) < 5 \<or> exceeds (length (trim (textarea s))) (maxlen e) \<longrightarrow>
      (\<exists>s'. on_key e ev s = Returned s' \<and> btn_disabled s' \<and> textarea s' = textarea s \<and>
            requests s' = requests s \<and> submitStatusUpdate e s' = Returned s'))"
  by (auto simp: on_key_def Let_def submitStatusUpdate_def)

lemma gif_pending_fields:
  "embedded_resource gif_pending = JStr gif_src"
  "requests gif_pending = [GetMetadata (metadata_url ''https://example.com/page'') ''https://example.com/page'']"
  "preview_shown gif_pending"
  by (simp_all add: gif_pending_def selectGif_def first_link_edit)

lemma raced_page_fields:
  "textarea raced_page = link_text"
  "embedded_resource raced_page = JStr ''https://example.com/page''"
  "requests raced_page = requests gif_pending"
  "\<not> preview_shown raced_page"
  by (simp_all add: raced_page_def gif_pending_def selectGif_def first_link_edit on_metadata_def
      Let_def long_meta_def)

lemma raced_video_edit:
  "issued raced_page (user_edit env0 (video_text, ''insertText'') raced_page) =
     [GetVideoData (video_url (youtube_key env0) ''dQw4w9WgXcQ'') ''dQw4w9WgXcQ'' ''https://youtu.be/dQw4w9WgXcQ'']"
  by (simp add: user_edit_def on_input_def Let_def gif_locked_def raced_page_fields link_url_no_giphy
      detect_def video_text_youtube id11_def grp_def whole_def youtube_branch_def
      fetchData_def mention_def video_text_split startsWith_def issued_def)

lemma blurred_page:
  "page_of (on_key env1 blur_event typed_page) =
     typed_page\<lparr>draft := Some ''hello world'', btn_disabled := False\<rparr>"
  by (simp add: on_key_def typed_page_def page0_def env1_def env0_def blur_event_def trim_hello
      exceeds_def Let_def)

lemma posted_once_eq:
  "posted_once =
     typed_page\<lparr>textarea := [], draft := Some [], btn_disabled := False,
       requests := [PostActivity [(''ask'', ''undefined''), (''data'', ''hello world''),
          (''what'', ''status''), (''tab'', ''everywhere''), (''csrfmiddlewaretoken'', ''token'')]
          ''hello world'']\<rparr>"
proof -
  have "posted_once =
      click_btn_post env1 (typed_page\<lparr>draft := Some ''hello world'', btn_disabled := False\<rparr>)"
    by (simp only: posted_once_def blurred_page)
  also have "\<dots> = typed_page\<lparr>textarea := [], draft := Some [], btn_disabled := False,
       requests := [PostActivity [(''ask'', ''undefined''), (''data'', ''hello world''),
          (''what'', ''status''), (''tab'', ''everywhere''), (''csrfmiddlewaretoken'', ''token'')]
          ''hello world'']\<rparr>"
    by (simp add: click_btn_post_def login_click_def submitStatusUpdate_def typed_page_def
        page0_def env1_def env0_def trim_hello Let_def resource_fields_def video_fields_def
        poll_fields_def poll_field_def poll_val_def fetchData_def)
  finally show ?thesis .
qed

lemma trim_empty: "trim [] = []"
  by (simp add: trim_def)

section \<open>The claims\<close>



text \<open>
  C2 at a failing input.  The link of \<open>link_text\<close> is typed and its lookup issued; a GIF
  is selected before the reply arrives, so \<open>embedded_resource\<close> matches the GIF pattern
  and an input event changes nothing.  The reply then runs the completion handler, which
  assigns the link to \<open>embedded_resource\<close> and hides the GIF preview without testing
  for a GIF.  Nothing has cleared the selection, yet the next input event is classified
  again and issues a video lookup.
\<close>

theorem gif_lock_overwritten:
  "gif_locked gif_pending \<and>
   requests gif_pending =
     [GetMetadata (metadata_url ''https://example.com/page'') ''https://example.com/page''] \<and>
   user_edit env0 (link_text, ''insertText'') gif_pending = gif_pending \<and>
   embedded_resource raced_page = JStr ''https://example.com/page'' \<and>
   \<not> preview_shown raced_page \<and>
   \<not> gif_locked raced_page \<and>
   issued raced_page (user_edit env0 (video_text, ''insertText'') raced_page) =
     [GetVideoData (video_url (youtube_key env0) ''dQw4w9WgXcQ'') ''dQw4w9WgXcQ''
        ''https://youtu.be/dQw4w9WgXcQ'']"
proof -
  have l: "gif_locked gif_pending"
    by (simp add: gif_locked_def gif_pending_fields gif_src_giphy)
  have t: "textarea gif_pending = link_text"
    by (simp add: gif_pending_def selectGif_def first_link_edit)
  have e: "user_edit env0 (link_text, ''insertText'') gif_pending = gif_pending"
    using user_edit_locked [OF l, of env0 "(link_text, ''insertText'')"] t by (metis fst_conv page.surjective page.update_convs(2))
  have u: "\<not> gif_locked raced_page"
    by (simp add: gif_locked_def raced_page_fields link_url_no_giphy)
  show ?thesis
    by (simp add: l e u raced_page_fields gif_pending_fields raced_video_edit)
qed

text \<open>
  C3.  A submission that is sent and ends with a status other than 200, or with a
  network error, puts the trimmed message of the time of submitting back into the text
  box and into the draft cache, shows an error notice, and issues no request: whatever
  the page has become when the reply arrives, its list of requests stays as it is.
\<close>

theorem failed_submit_restores:
  assumes "\<not> btn_disabled s0" and "submitStatusUpdate e s0 = Returned s1"
    and "r = NetworkError \<or> (\<exists>n. r = Status n \<and> n \<noteq> 200)"
  shows "\<exists>body. requests s1 = requests s0 @ [PostActivity body (trim (textarea s0))] \<and>
           textarea (on_reply (trim (textarea s0)) r s) = trim (textarea s0) \<and>
           draft (on_reply (trim (textarea s0)) r s) = Some (trim (textarea s0)) \<and>
           alerts (on_reply (trim (textarea s0)) r s) =
             alerts s @ [(''An error occurred. Please try again.'', ''error'', None)] \<and>
           requests (on_reply (trim (textarea s0)) r s) = requests s"
proof -
  from submit_enabled [OF assms(1,2)] obtain body
    where "requests s1 = requests s0 @ [PostActivity body (trim (textarea s0))]"
    by auto
  then show ?thesis
    by (simp add: fail_reply [OF assms(3)])
qed

theorem failed_submit_restores_witness:
  "\<not> btn_disabled gif_page \<and> submitStatusUpdate env0 gif_page = Returned gif_sent \<and>
   (\<exists>body. requests gif_sent = [PostActivity body ''hello world'']) \<and>
   textarea (on_reply ''hello world'' (Status 500) gif_sent) = ''hello world'' \<and>
   draft (on_reply ''hello world'' (Status 500) gif_sent) = Some ''hello world'' \<and>
   alerts (on_reply ''hello world'' (Status 500) gif_sent) =
     [(''An error occurred. Please try again.'', ''error'', None)] \<and>
   requests (on_reply ''hello world'' (Status 500) gif_sent) = requests gif_sent"
proof -
  have r: "Status 500 = NetworkError \<or> (\<exists>n. Status 500 = Status n \<and> n \<noteq> 200)"
    by simp
  have a: "alerts gif_sent = []"
    by (simp add: gif_sent_def gif_page_fields)
  from failed_submit_restores [OF gif_page_fields(1) gif_page_submit r, of gif_sent] show ?thesis
    by (auto simp: gif_page_fields gif_page_submit trim_hello a)
qed

text \<open>
  C4 at a failing input.  The visitor of \<open>env0\<close> is not logged in.  Pressing Enter in
  the focused text box holding \<open>hello world\<close> issues the submission request and shows no
  login prompt; a click on the enabled post button issues the request as well, the
  login prompt being shown after it.
\<close>

theorem anonymous_submit_issued:
  "\<not> truthy (github_handle env0) \<and>
   issued typed_page (page_of (on_key env0 enter_key typed_page)) =
     [PostActivity [(''ask'', ''undefined''), (''data'', ''hello world''), (''what'', ''status''),
        (''tab'', ''everywhere''), (''csrfmiddlewaretoken'', ''token'')] ''hello world''] \<and>
   alerts (page_of (on_key env0 enter_key typed_page)) = [] \<and>
   \<not> btn_disabled gif_page \<and>
   issued gif_page (click_btn_post env0 gif_page) = requests gif_sent \<and>
   alerts (click_btn_post env0 gif_page) = [(''Please login first.'', ''error'', None)]"
  by (simp add: typed_page_key issued_def click_btn_post_def gif_page_submit login_click_def
      alert_def gif_page_fields gif_sent_def)
    (simp add: env0_def typed_page_def page0_def)

text \<open>
  C5 at a failing input.  The link \<open>https://example.com/page\<close> has been detected and
  its lookup answered, so \<open>embedded_resource\<close> equals the matched text.  A further input
  event on the same text matches the URL pattern with that same text and issues the
  link-metadata request again: only the video branch compares the match with
  \<open>embedded_resource\<close> before it fetches.
\<close>

theorem link_refetch_issued:
  "js_match (textarea linked_page) url_re = Some (''https://example.com/page'', [None, Some ''/page'']) \<and>
   js_match (textarea linked_page) youtube_re = None \<and>
   embedded_resource linked_page = JStr ''https://example.com/page'' \<and>
   issued linked_page (on_input env0 ''insertText'' linked_page) =
     [GetMetadata (metadata_url ''https://example.com/page'') ''https://example.com/page'']"
  by (simp add: linked_page_fields link_text_url link_text_youtube linked_page_unlocked
      on_input_def Let_def detect_def id11_def link_branch_def arr_length_def whole_def
      fetchData_def mention_def link_text_split startsWith_def issued_def)

text \<open>
  C6, as amended.  On an input event that is not GIF-locked, with \<open>w\<close> the text after
  the last space of the box: if \<open>w\<close> begins with \<open>@\<close> and has more than 2 characters after
  it, exactly one user lookup is issued, for those characters; if \<open>w\<close> does not begin with
  \<open>@\<close>, the dropdown is hidden and no user lookup is issued.  The reply to a lookup
  replaces the rows of the dropdown by those of the response and shows it.  Losing focus
  leaves the dropdown as it is and sets a timer of 100 ms that hides it.
\<close>

theorem mention_lookup:
  assumes "\<not> gif_locked s" and "w = last (js_split CHR '' '' (textarea s))"
    and "s' = on_input e inputType s"
  shows "(startsWith w ''@'' \<and> 2 < length (slice1 w) \<longrightarrow>
            filter is_users (issued s s') = [GetUsers (users_url (slice1 w)) (slice1 w)]) \<and>
         (\<not> startsWith w ''@'' \<longrightarrow> \<not> dropdown_shown s' \<and> filter is_users (issued s s') = []) \<and>
         dropdown (on_users static_url usernameFilter profiles t) =
           (if profiles \<noteq> [] then map (user_row static_url) profiles
            else [NoMatch (''No username matching '' @ [CHR 0x27] @ usernameFilter @ [CHR 0x27])]) \<and>
         dropdown_shown (on_users static_url usernameFilter profiles t) \<and>
         dropdown_shown (on_focusout t) = dropdown_shown t \<and>
         timers (on_focusout t) = timers t @ [(100, HideDropdown)] \<and>
         \<not> dropdown_shown (fire HideDropdown t)"
  using issued_on_input [OF assms(1,2), of e inputType] dropdown_on_input [OF assms(1,2), of e inputType]
  by (simp add: assms(3) on_users_def on_focusout_def)

theorem mention_lookup_witness:
  "\<not> gif_locked space_mention \<and>
   last (js_split CHR '' '' (textarea space_mention)) = ''@bobby'' \<and>
   startsWith ''@bobby'' ''@'' \<and> 2 < length (slice1 ''@bobby'') \<and>
   filter is_users (issued space_mention (on_input env0 ''insertText'' space_mention)) =
     [GetUsers (users_url ''bobby'') ''bobby''] \<and>
   \<not> gif_locked (space_mention\<lparr>textarea := ''hi''\<rparr>) \<and>
   \<not> startsWith (last (js_split CHR '' '' (textarea (space_mention\<lparr>textarea := ''hi''\<rparr>)))) ''@'' \<and>
   dropdown_shown (space_mention\<lparr>textarea := ''hi''\<rparr>) \<and>
   \<not> dropdown_shown (on_input env0 ''insertText'' (space_mention\<lparr>textarea := ''hi''\<rparr>)) \<and>
   dropdown (on_users ''/static/'' ''bobby'' [([], ''bobby1'')] space_mention) =
     [UserRow ''/static/v2/images/user-placeholder.png'' ''bobby1''] \<and>
   timers (on_focusout space_mention) = [(100, HideDropdown)] \<and>
   \<not> dropdown_shown (fire HideDropdown space_mention)"
proof -
  have w: "''@bobby'' = last (js_split CHR '' '' (textarea space_mention))"
    by (simp add: space_mention_def)
  have w2: "''hi'' = last (js_split CHR '' '' (textarea (space_mention\<lparr>textarea := ''hi''\<rparr>)))"
    by simp
  have u2: "\<not> gif_locked (space_mention\<lparr>textarea := ''hi''\<rparr>)"
    by (simp add: space_mention_unlocked)
  have f: "dropdown_shown space_mention" "timers space_mention = []"
    by (simp_all add: space_mention_def page0_def)
  from mention_lookup [OF space_mention_unlocked w refl, of env0 "''insertText''" "''/static/''" "''bobby''" "[([], ''bobby1'')]" space_mention]
    mention_lookup [OF u2 w2 refl, of env0 "''insertText''" "''/static/''" "''bobby''" "[([], ''bobby1'')]" space_mention]
  show ?thesis
    by (simp add: space_mention_unlocked w [symmetric] startsWith_def slice1_def f user_row_def)
qed

text \<open>
  C6 as stated fails in two ways.  While a GIF is selected the handler returns before
  it looks at the last token: with the text \<open>hi @bobby\<close> no lookup is issued, and with
  the text \<open>hi\<close> the dropdown stays shown.  And tokens are delimited by the space
  character only: in \<open>hi\<close>, a line feed, \<open>@bobby\<close> the last whitespace-delimited token
  is \<open>@bobby\<close>, yet no lookup is issued.
\<close>

theorem mention_lookup_counterexample:
  "gif_locked gif_mention \<and> dropdown_shown gif_mention \<and>
   last (js_split CHR '' '' (textarea gif_mention)) = ''@bobby'' \<and>
   startsWith ''@bobby'' ''@'' \<and> 2 < length (slice1 ''@bobby'') \<and>
   issued gif_mention (on_input env0 ''insertText'' gif_mention) = [] \<and>
   textarea line_mention = ''hi'' @ [CHR 0x0A] @ ''@bobby'' \<and>
   issued line_mention (on_input env0 ''insertText'' line_mention) = [] \<and>
   dropdown_shown (on_input env0 ''insertText'' (gif_mention\<lparr>textarea := ''hi''\<rparr>))"
proof -
  have a: "on_input env0 ''insertText'' gif_mention = gif_mention"
    by (rule on_input_locked [OF gif_mention_locked])
  have b: "on_input env0 ''insertText'' (gif_mention\<lparr>textarea := ''hi''\<rparr>) = gif_mention\<lparr>textarea := ''hi''\<rparr>"
    by (rule on_input_locked) (simp add: gif_mention_locked)
  have m: "js_match (''hi'' @ [CHR 0x0A] @ ''@bobby'') url_re = None"
      "js_match (''hi'' @ [CHR 0x0A] @ ''@bobby'') youtube_re = None"
    by code_simp+
  have c: "issued line_mention (on_input env0 ''insertText'' line_mention) = []"
    by (simp add: line_mention_def on_input_def Let_def gif_locked_def page0_def empty_no_giphy
        detect_def m [simplified] id11_def link_branch_def none_branch_def mention_def
        startsWith_def issued_def)
  show ?thesis
    by (simp add: a b c gif_mention_locked)
      (simp add: gif_mention_def line_mention_def issued_def startsWith_def slice1_def)
qed

text \<open>
  C7, as amended.  When the text holds a match of the YouTube pattern with an
  11-character id, \<open>embedded_resource\<close> is not GIF-locked and the edit is not a line
  break, the event is classified as a video and not as a link: the only metadata request
  it can issue is the video lookup for that id, and it issues that one exactly when
  \<open>embedded_resource\<close> differs from the matched text.  A reply with at least one item sets
  the provider label to \<open>Youtube\<close> and the thumbnail to
  \<open>https://img.youtube.com/vi/<id>/default.jpg\<close>.
\<close>

theorem youtube_classification:
  assumes "js_match (textarea s) youtube_re = Some y" and "id11 (Some y) = Some videoId"
    and "\<not> gif_locked s" and "inputType \<noteq> ''insertLineBreak''"
  shows "filter is_metadata (issued s (on_input e inputType s)) =
           (if embedded_resource s \<noteq> JStr (whole y)
            then [GetVideoData (video_url (youtube_key e) videoId) videoId (whole y)] else []) \<and>
         thumbnail_provider (on_video_data videoId (whole y) (title # titles) t) = ''Youtube'' \<and>
         thumbnail_img (on_video_data videoId (whole y) (title # titles) t) =
           Some (''https://img.youtube.com/vi/'' @ videoId @ ''/default.jpg'')"
proof -
  let ?w = "last (js_split CHR '' '' (textarea s))"
  have "on_input e inputType s = mention ?w (youtube_branch e (whole y) videoId s)"
    using assms by (simp add: on_input_def Let_def detect_youtube)
  then have "issued s (on_input e inputType s) =
      (if embedded_resource s \<noteq> JStr (whole y)
       then [GetVideoData (video_url (youtube_key e) videoId) videoId (whole y)] else []) @
      (if startsWith ?w ''@'' \<and> 2 < length (slice1 ?w) then [GetUsers (users_url (slice1 ?w)) (slice1 ?w)] else [])"
    by (simp add: issued_def requests_mention requests_youtube_branch)
  then show ?thesis
    by (simp add: on_video_data_def)
qed

theorem youtube_classification_witness:
  "js_match (textarea (page0\<lparr>textarea := video_text\<rparr>)) youtube_re
     = Some (''https://youtu.be/dQw4w9WgXcQ'', [Some ''dQw4w9WgXcQ'']) \<and>
   id11 (Some (''https://youtu.be/dQw4w9WgXcQ'', [Some ''dQw4w9WgXcQ''])) = Some ''dQw4w9WgXcQ'' \<and>
   \<not> gif_locked (page0\<lparr>textarea := video_text\<rparr>) \<and>
   filter is_metadata (issued (page0\<lparr>textarea := video_text\<rparr>)
       (on_input env0 ''insertText'' (page0\<lparr>textarea := video_text\<rparr>))) =
     [GetVideoData (video_url (youtube_key env0) ''dQw4w9WgXcQ'') ''dQw4w9WgXcQ''
        ''https://youtu.be/dQw4w9WgXcQ''] \<and>
   thumbnail_provider (on_video_data ''dQw4w9WgXcQ'' ''https://youtu.be/dQw4w9WgXcQ'' [''A title''] page0) = ''Youtube'' \<and>
   thumbnail_img (on_video_data ''dQw4w9WgXcQ'' ''https://youtu.be/dQw4w9WgXcQ'' [''A title''] page0)
     = Some ''https://img.youtube.com/vi/dQw4w9WgXcQ/default.jpg''"
proof -
  have m: "js_match (textarea (page0\<lparr>textarea := video_text\<rparr>)) youtube_re
     = Some (''https://youtu.be/dQw4w9WgXcQ'', [Some ''dQw4w9WgXcQ''])"
    by (simp add: video_text_youtube)
  have it: "''insertText'' \<noteq> ''insertLineBreak''"
    by simp
  have er: "embedded_resource (page0\<lparr>textarea := video_text\<rparr>) = JStr []"
    by (simp add: page0_def)
  from youtube_classification [OF m video_text_id11 page0_video_unlocked it, of env0 "''A title''" "[]" page0]
  have "filter is_metadata (issued (page0\<lparr>textarea := video_text\<rparr>)
       (on_input env0 ''insertText'' (page0\<lparr>textarea := video_text\<rparr>))) =
     [GetVideoData (video_url (youtube_key env0) ''dQw4w9WgXcQ'') ''dQw4w9WgXcQ''
        ''https://youtu.be/dQw4w9WgXcQ''] \<and>
   thumbnail_provider (on_video_data ''dQw4w9WgXcQ'' ''https://youtu.be/dQw4w9WgXcQ'' [''A title''] page0) = ''Youtube'' \<and>
   thumbnail_img (on_video_data ''dQw4w9WgXcQ'' ''https://youtu.be/dQw4w9WgXcQ'' [''A title''] page0)
     = Some ''https://img.youtube.com/vi/dQw4w9WgXcQ/default.jpg''"
    by (simp add: er whole_def)
  with m video_text_id11 page0_video_unlocked show ?thesis
    by blast
qed

text \<open>
  C7 as stated fails when \<open>embedded_resource\<close> already equals the matched text: after
  the lookup for \<open>https://youtu.be/dQw4w9WgXcQ\<close> has been answered, a further input event
  on the same text matches the pattern, is not GIF-locked, and issues no request.
\<close>

theorem youtube_lookup_counterexample:
  "js_match (textarea seen_video_page) youtube_re = Some (''https://youtu.be/dQw4w9WgXcQ'', [Some ''dQw4w9WgXcQ'']) \<and>
   id11 (js_match (textarea seen_video_page) youtube_re) = Some ''dQw4w9WgXcQ'' \<and>
   \<not> gif_locked seen_video_page \<and>
   issued seen_video_page (on_input env0 ''insertText'' seen_video_page) = []"
  by (simp add: seen_video_fields video_text_youtube video_text_id11 seen_video_unlocked
      on_input_def Let_def detect_def youtube_branch_def whole_def mention_def video_text_split
      startsWith_def issued_def)

text \<open>
  C8 at a failing input.  \<open>submitStatusUpdate\<close> empties the text box without disabling
  the post button, and the button is disabled only by the handler of keys and focus
  changes.  After \<open>hello world\<close> has been posted with a click, the trimmed text has length
  0 and the button is still enabled: a second click posts the empty message.
\<close>

theorem short_text_posted:
  "textarea posted_once = [] \<and> length (trim (textarea posted_once)) < 5 \<and>
   \<not> btn_disabled posted_once \<and>
   requests posted_once =
     [PostActivity [(''ask'', ''undefined''), (''data'', ''hello world''), (''what'', ''status''),
        (''tab'', ''everywhere''), (''csrfmiddlewaretoken'', ''token'')] ''hello world''] \<and>
   issued posted_once (click_btn_post env1 posted_once) =
     [PostActivity [(''ask'', ''undefined''), (''data'', []), (''what'', ''status''),
        (''tab'', ''everywhere''), (''csrfmiddlewaretoken'', ''token'')] []] \<and>
   alerts (click_btn_post env1 posted_once) = []"
  by (simp add: posted_once_eq trim_empty issued_def click_btn_post_def login_click_def
      submitStatusUpdate_def typed_page_def page0_def env1_def env0_def Let_def
      resource_fields_def video_fields_def poll_fields_def poll_field_def poll_val_def fetchData_def)

text \<open>
  C9.  For a link-metadata response with a description, the description shown in the
  preview panel is its first 200 characters followed by \<open>...\<close> when it is longer than 200
  characters, and the description itself otherwise.
\<close>

theorem description_truncation:
  assumes "meta_description r = Some d"
  shows "thumbnail_desc (on_metadata url (Some r) s) =
           (if length d > 200 then take 200 d @ ''...'' else d) \<and>
         thumbnail_shown (on_metadata url (Some r) s)"
  using assms
  by (auto simp: on_metadata_def Let_def shorten_def set_text_def substr0_def split: option.splits list.splits)

theorem description_truncation_witness:
  "meta_description long_meta = Some (replicate 201 CHR ''a'') \<and>
   thumbnail_desc (on_metadata ''https://example.com/page'' (Some long_meta) page0) = replicate 200 CHR ''a'' @ ''...'' \<and>
   meta_description (long_meta\<lparr>meta_description := Some ''short''\<rparr>) = Some ''short'' \<and>
   thumbnail_desc (on_metadata ''https://example.com/page'' (Some (long_meta\<lparr>meta_description := Some ''short''\<rparr>)) page0) = ''short''"
  using description_truncation [of long_meta "replicate 201 CHR ''a''" "''https://example.com/page''" page0]
    description_truncation [of "long_meta\<lparr>meta_description := Some ''short''\<rparr>" "''short''" "''https://example.com/page''" page0]
  by (simp add: long_meta_def)

text \<open>
  C10.  After a failed submission only the text box and the draft cache are restored.
  \<open>embedded_resource\<close> and the contents of the thumbnail and GIF preview panels are
  what they were before the submission (a reply with status 200 would have cleared
  them), and the poll and video containers, removed before the request was issued, stay
  removed.
\<close>

theorem failed_submit_frame:
  assumes "\<not> btn_disabled s0" and "submitStatusUpdate e s0 = Returned s1"
    and "r = NetworkError \<or> (\<exists>n. r = Status n \<and> n \<noteq> 200)"
    and "s2 = on_reply (trim (textarea s0)) r s1"
    and "s3 = on_reply (trim (textarea s0)) (Status 200) s1"
  shows "textarea s2 = trim (textarea s0) \<and> draft s2 = Some (trim (textarea s0)) \<and>
         embedded_resource s2 = embedded_resource s0 \<and>
         thumbnail_title s2 = thumbnail_title s0 \<and> thumbnail_provider s2 = thumbnail_provider s0 \<and>
         thumbnail_desc s2 = thumbnail_desc s0 \<and> thumbnail_img s2 = thumbnail_img s0 \<and>
         thumbnail_shown s2 = thumbnail_shown s0 \<and>
         preview_img s2 = preview_img s0 \<and> preview_shown s2 = preview_shown s0 \<and>
         poll_container s2 = None \<and> video_container s2 = None \<and>
         embedded_resource s3 = JStr [] \<and> thumbnail_title s3 = [] \<and> thumbnail_provider s3 = [] \<and>
         thumbnail_desc s3 = [] \<and> thumbnail_img s3 = Some [] \<and> \<not> thumbnail_shown s3 \<and>
         preview_img s3 = JStr [] \<and> \<not> preview_shown s3"
proof -
  from submit_enabled [OF assms(1,2)] obtain body where
    s1: "s1 = s0\<lparr>textarea := [], draft := Some [], poll_container := None, video_container := None,
            requests := requests s0 @ [PostActivity body (trim (textarea s0))]\<rparr>"
    by blast
  have s2: "s2 = s1\<lparr>textarea := trim (textarea s0), draft := Some (trim (textarea s0)),
           alerts := alerts s1 @ [(''An error occurred. Please try again.'', ''error'', None)]\<rparr>"
    using fail_reply [OF assms(3)] assms(4) by simp
  have ok: "embedded_resource s3 = JStr [] \<and> thumbnail_title s3 = [] \<and> thumbnail_provider s3 = [] \<and>
         thumbnail_desc s3 = [] \<and> thumbnail_img s3 = Some [] \<and> \<not> thumbnail_shown s3 \<and>
         preview_img s3 = JStr [] \<and> \<not> preview_shown s3"
    by (simp add: assms(5) on_reply_def alert_def Let_def split: option.splits)
  show ?thesis
    by (simp add: s2 s1 ok)
qed

theorem failed_submit_frame_witness:
  "\<not> btn_disabled poll_page \<and> submitStatusUpdate env0 poll_page = Returned poll_sent \<and>
   poll_container poll_page \<noteq> None \<and> video_container poll_page = Some ''video1.gif'' \<and>
   textarea (on_reply ''hello world'' NetworkError poll_sent) = ''hello world'' \<and>
   embedded_resource (on_reply ''hello world'' NetworkError poll_sent) = JStr gif_src \<and>
   preview_img (on_reply ''hello world'' NetworkError poll_sent) = JStr gif_src \<and>
   preview_shown (on_reply ''hello world'' NetworkError poll_sent) \<and>
   poll_container (on_reply ''hello world'' NetworkError poll_sent) = None \<and>
   video_container (on_reply ''hello world'' NetworkError poll_sent) = None \<and>
   embedded_resource (on_reply ''hello world'' (Status 200) poll_sent) = JStr []"
proof -
  have h1: "\<not> btn_disabled poll_page"
    by (simp add: poll_page_def gif_page_fields)
  have r: "NetworkError = NetworkError \<or> (\<exists>n. NetworkError = Status n \<and> n \<noteq> 200)"
    by simp
  have t: "trim (textarea poll_page) = ''hello world''"
    by (simp add: poll_page_def gif_page_fields trim_hello)
  have f: "embedded_resource poll_page = JStr gif_src" "preview_img poll_page = JStr gif_src"
    "preview_shown poll_page" "poll_container poll_page \<noteq> None" "video_container poll_page = Some ''video1.gif''"
    by (simp_all add: poll_page_def gif_page_def selectGif_def)
  from failed_submit_frame [OF h1 poll_page_submit r refl refl] show ?thesis
    by (simp add: h1 poll_page_submit t f)
qed

end
